theory Spec2Isabelle
  imports Main "HOL-Library.Word"
begin

section \<open>Data model of the tile cache (cache/cache.go)\<close>

text \<open>
  The cache keeps tiles in two tiers: an in-process store (bigcache, the field
  \<open>internal\<close>) and a shared store (Redis, the field \<open>external\<close>). Both are libraries
  outside the repository, so each is modelled by the keys it holds together with a
  script of faults: the head of the script says whether the next call to the tier
  fails with an error of its own, and each call consumes it. An empty script is a
  tier that never fails.
\<close>

type_synonym byte = "8 word"
type_synonym bytes = "byte list"

text \<open>\<open>type TilePacket []byte\<close>: the conversion \<open>TilePacket(cachedTile)\<close> at line 248.\<close>

type_synonym TilePacket = bytes

datatype error =
    ErrEntryNotFound      \<comment> \<open>\<open>bigcache.ErrEntryNotFound\<close>\<close>
  | RedisNil              \<comment> \<open>\<open>redis.Nil\<close>\<close>
  | TierError string      \<comment> \<open>any other error, with its message\<close>

fun error_text :: "error \<Rightarrow> string" where
  "error_text ErrEntryNotFound = ''Entry not found''"
| "error_text RedisNil = ''redis: nil''"
| "error_text (TierError m) = m"

datatype metric_id = MetricId string string string string
  \<comment> \<open>namespace, subsystem, name, value of the constant label \<open>proxy\<close>\<close>

datatype panic =
    NilDereference                 \<comment> \<open>a method or field of a nil pointer or nil interface\<close>
  | AlreadyRegistered metric_id    \<comment> \<open>promauto panics when registration fails\<close>

record cache_config =
  MemEnabled :: bool
  MemTTLDuration :: int
  MemCap :: int
  RedisEnabled :: bool
  RedisURL :: string
  RedisTLS :: bool
  RedisTTLDuration :: int

record proxy =
  Name :: string
  Cache :: cache_config

record metrics =
  CacheHits :: nat
  CacheMisses :: nat

record bigcache =
  mem_entries :: "string \<rightharpoonup> bytes"
  mem_faults :: "string option list"

record redis_client =
  redis_entries :: "string \<rightharpoonup> bytes \<times> int"
  redis_faults :: "string option list"

record cache =
  internal :: "bigcache option"
  external :: "redis_client option"
  Proxy :: proxy
  Metrics :: metrics

text \<open>
  A \<open>*Cache\<close> is an address in the heap or nil (\<open>None\<close>). Goroutines started with
  \<open>go\<close> are recorded in the order they were started and run later by \<open>run_task\<close>.
\<close>

datatype task =
    GoExpire "nat option" string int
  | GoSet "nat option" string TilePacket "bool list"
  | GoRedisSet "nat option" string TilePacket

datatype log_arg = S string | N nat

datatype log_entry =
    LogError string "log_arg list"
  | LogDebug string "log_arg list"

record world =
  Caches :: "string \<rightharpoonup> nat"
  heap :: "nat \<rightharpoonup> cache"
  brk :: nat
  cacheLock :: bool
  registered :: "metric_id list"
  goroutines :: "task list"
  logs :: "log_entry list"
  ctx_locals :: "string \<rightharpoonup> string"

definition deref :: "nat option \<Rightarrow> world \<Rightarrow> cache option" where
  "deref p w = (case p of None \<Rightarrow> None | Some a \<Rightarrow> heap w a)"

definition put :: "nat option \<Rightarrow> cache \<Rightarrow> world \<Rightarrow> world" where
  "put p c w = (case p of None \<Rightarrow> w | Some a \<Rightarrow> w\<lparr>heap := (heap w)(a \<mapsto> c)\<rparr>)"

definition util_Error :: "string \<Rightarrow> log_arg list \<Rightarrow> world \<Rightarrow> world" where
  "util_Error code args w = w\<lparr>logs := logs w @ [LogError code args]\<rparr>"

definition util_DebugFlag :: "string \<Rightarrow> log_arg list \<Rightarrow> world \<Rightarrow> world" where
  "util_DebugFlag code args w = w\<lparr>logs := logs w @ [LogDebug code args]\<rparr>"

definition go :: "task \<Rightarrow> world \<Rightarrow> world" where
  "go t w = w\<lparr>goroutines := goroutines w @ [t]\<rparr>"

definition ctx_Locals :: "string \<Rightarrow> string \<Rightarrow> world \<Rightarrow> world" where
  "ctx_Locals k v w = w\<lparr>ctx_locals := (ctx_locals w)(k \<mapsto> v)\<rparr>"

definition CacheMisses_Inc :: "nat option \<Rightarrow> world \<Rightarrow> world" where
  "CacheMisses_Inc p w =
     (case deref p w of
        None \<Rightarrow> w
      | Some c \<Rightarrow> put p (c\<lparr>Metrics := (Metrics c)\<lparr>CacheMisses := Suc (CacheMisses (Metrics c))\<rparr>\<rparr>) w)"

definition CacheHits_Inc :: "nat option \<Rightarrow> world \<Rightarrow> world" where
  "CacheHits_Inc p w =
     (case deref p w of
        None \<Rightarrow> w
      | Some c \<Rightarrow> put p (c\<lparr>Metrics := (Metrics c)\<lparr>CacheHits := Suc (CacheHits (Metrics c))\<rparr>\<rparr>) w)"

subsection \<open>The tiers\<close>

fun fault_now :: "string option list \<Rightarrow> string option" where
  "fault_now [] = None"
| "fault_now (f # fs) = f"

definition bigcache_Get :: "string \<Rightarrow> bigcache \<Rightarrow> (bytes option \<times> error option) \<times> bigcache" where
  "bigcache_Get key bc =
     (let bc' = bc\<lparr>mem_faults := tl (mem_faults bc)\<rparr> in
      case fault_now (mem_faults bc) of
        Some m \<Rightarrow> ((None, Some (TierError m)), bc')
      | None \<Rightarrow>
          (case mem_entries bc key of
             None \<Rightarrow> ((None, Some ErrEntryNotFound), bc')
           | Some v \<Rightarrow> ((Some v, None), bc')))"

definition bigcache_Set :: "string \<Rightarrow> bytes \<Rightarrow> bigcache \<Rightarrow> error option \<times> bigcache" where
  "bigcache_Set key v bc =
     (let bc' = bc\<lparr>mem_faults := tl (mem_faults bc)\<rparr> in
      case fault_now (mem_faults bc) of
        Some m \<Rightarrow> (Some (TierError m), bc')
      | None \<Rightarrow> (None, bc'\<lparr>mem_entries := (mem_entries bc)(key \<mapsto> v)\<rparr>))"

definition bigcache_Delete :: "string \<Rightarrow> bigcache \<Rightarrow> error option \<times> bigcache" where
  "bigcache_Delete key bc =
     (let bc' = bc\<lparr>mem_faults := tl (mem_faults bc)\<rparr> in
      case fault_now (mem_faults bc) of
        Some m \<Rightarrow> (Some (TierError m), bc')
      | None \<Rightarrow>
          (case mem_entries bc key of
             None \<Rightarrow> (Some ErrEntryNotFound, bc')
           | Some v \<Rightarrow> (None, bc'\<lparr>mem_entries := (mem_entries bc)(key := None)\<rparr>)))"

text \<open>
  \<open>redis.StringCmd\<close>: \<open>Err()\<close> is the field \<open>cmd_err\<close>; \<open>Bytes()\<close> returns the value
  as a (non-nil) slice together with the same error.
\<close>

record StringCmd =
  val :: bytes
  cmd_err :: "error option"

definition StringCmd_Bytes :: "StringCmd \<Rightarrow> bytes option \<times> error option" where
  "StringCmd_Bytes cmd = (Some (val cmd), cmd_err cmd)"

definition redis_Get :: "string \<Rightarrow> redis_client \<Rightarrow> StringCmd \<times> redis_client" where
  "redis_Get key rc =
     (let rc' = rc\<lparr>redis_faults := tl (redis_faults rc)\<rparr> in
      case fault_now (redis_faults rc) of
        Some m \<Rightarrow> (\<lparr>val = [], cmd_err = Some (TierError m)\<rparr>, rc')
      | None \<Rightarrow>
          (case redis_entries rc key of
             None \<Rightarrow> (\<lparr>val = [], cmd_err = Some RedisNil\<rparr>, rc')
           | Some (v, ttl) \<Rightarrow> (\<lparr>val = v, cmd_err = None\<rparr>, rc')))"

definition redis_Set :: "string \<Rightarrow> bytes \<Rightarrow> int \<Rightarrow> redis_client \<Rightarrow> error option \<times> redis_client" where
  "redis_Set key v ttl rc =
     (let rc' = rc\<lparr>redis_faults := tl (redis_faults rc)\<rparr> in
      case fault_now (redis_faults rc) of
        Some m \<Rightarrow> (Some (TierError m), rc')
      | None \<Rightarrow> (None, rc'\<lparr>redis_entries := (redis_entries rc)(key \<mapsto> (v, ttl))\<rparr>))"

definition redis_Del :: "string \<Rightarrow> redis_client \<Rightarrow> error option \<times> redis_client" where
  "redis_Del key rc =
     (let rc' = rc\<lparr>redis_faults := tl (redis_faults rc)\<rparr> in
      case fault_now (redis_faults rc) of
        Some m \<Rightarrow> (Some (TierError m), rc')
      | None \<Rightarrow> (None, rc'\<lparr>redis_entries := (redis_entries rc)(key := None)\<rparr>))"

definition redis_Expire :: "string \<Rightarrow> int \<Rightarrow> redis_client \<Rightarrow> error option \<times> redis_client" where
  "redis_Expire key ttl rc =
     (let rc' = rc\<lparr>redis_faults := tl (redis_faults rc)\<rparr> in
      case fault_now (redis_faults rc) of
        Some m \<Rightarrow> (Some (TierError m), rc')
      | None \<Rightarrow>
          (case redis_entries rc key of
             None \<Rightarrow> (None, rc')
           | Some (v, old) \<Rightarrow> (None, rc'\<lparr>redis_entries := (redis_entries rc)(key \<mapsto> (v, ttl))\<rparr>)))"

section \<open>Cache methods\<close>

subsection \<open>Invalidate (lines 302-319)\<close>

definition Invalidate_external :: "nat option \<Rightarrow> string \<Rightarrow> world \<Rightarrow> (panic + error option) \<times> world" where
  "Invalidate_external p key w =
     (case deref p w of
        None \<Rightarrow> (Inl NilDereference, w)
      | Some c \<Rightarrow>
          if RedisEnabled (Cache (Proxy c)) then
            (case external c of
               None \<Rightarrow> (Inl NilDereference, w)
             | Some rc \<Rightarrow>
                 (case redis_Del key rc of
                    (status, rc') \<Rightarrow>
                      let w1 = put p (c\<lparr>external := Some rc'\<rparr>) w in
                      if status \<noteq> None then (Inr status, w1) else (Inr None, w1)))
          else (Inr None, w))"

definition Invalidate :: "nat option \<Rightarrow> string \<Rightarrow> world \<Rightarrow> (panic + error option) \<times> world" where
  "Invalidate p key w =
     (case deref p w of
        None \<Rightarrow> (Inl NilDereference, w)
      | Some c \<Rightarrow>
          if MemEnabled (Cache (Proxy c)) then
            (case internal c of
               None \<Rightarrow> (Inl NilDereference, w)
             | Some bc \<Rightarrow>
                 (case bigcache_Delete key bc of
                    (e, bc') \<Rightarrow>
                      let w1 = put p (c\<lparr>internal := Some bc'\<rparr>) w in
                      if e \<noteq> None \<and> e \<noteq> Some ErrEntryNotFound then (Inr e, w1)
                      else Invalidate_external p key w1))
          else Invalidate_external p key w)"

subsection \<open>Set (lines 278-299)\<close>

text \<open>
  Modelled from the spec: \<open>TilePacket.Raw\<close> is defined in another file of the package;
  the spec says it "returns the full encoded blob exactly as stored/retrieved from a
  tier".
\<close>

definition Raw :: "TilePacket \<Rightarrow> bytes" where
  "Raw tile = tile"

definition Set :: "nat option \<Rightarrow> string \<Rightarrow> TilePacket \<Rightarrow> bool list \<Rightarrow> world \<Rightarrow> (panic + unit) \<times> world" where
  "Set p key tile internalOnly w =
     (let w0 = util_DebugFlag ''DCacheSet'' [S key, N (length tile)] w in
      case deref p w0 of
        None \<Rightarrow> (Inl NilDereference, w0)
      | Some c \<Rightarrow>
          let w1 = (if (length internalOnly = 0 \<or> \<not> internalOnly ! 0)
                       \<and> RedisEnabled (Cache (Proxy c))
                    then go (GoRedisSet p key tile) w0 else w0)
          in if MemEnabled (Cache (Proxy c)) then
               (case internal c of
                  None \<Rightarrow> (Inl NilDereference, w1)
                | Some bc \<Rightarrow>
                    (case bigcache_Set key tile bc of
                       (e, bc') \<Rightarrow>
                         let w2 = put p (c\<lparr>internal := Some bc'\<rparr>) w1 in
                         (case e of
                            None \<Rightarrow> (Inr (), w2)
                          | Some e' \<Rightarrow>
                              (Inr (), util_Error ''ECacheSet'' [S key, S (error_text e')] w2))))
             else (Inr (), w1))"

text \<open>The goroutines: what runs when the scheduler picks a started task.\<close>

fun run_task :: "task \<Rightarrow> world \<Rightarrow> (panic + unit) \<times> world" where
  "run_task (GoSet p key tile internalOnly) w = Set p key tile internalOnly w"
| "run_task (GoExpire p key ttl) w =
     (case deref p w of
        None \<Rightarrow> (Inl NilDereference, w)
      | Some c \<Rightarrow>
          (case external c of
             None \<Rightarrow> (Inl NilDereference, w)
           | Some rc \<Rightarrow>
               (Inr (), put p (c\<lparr>external := Some (snd (redis_Expire key ttl rc))\<rparr>) w)))"
| "run_task (GoRedisSet p key tile) w =
     (case deref p w of
        None \<Rightarrow> (Inl NilDereference, w)
      | Some c \<Rightarrow>
          (case external c of
             None \<Rightarrow> (Inl NilDereference, w)
           | Some rc \<Rightarrow>
               (case redis_Set key (Raw tile) (RedisTTLDuration (Cache (Proxy c))) rc of
                  (status, rc') \<Rightarrow>
                    let w1 = put p (c\<lparr>external := Some rc'\<rparr>) w in
                    (case status of
                       None \<Rightarrow> (Inr (), w1)
                     | Some e \<Rightarrow>
                         (Inr (), util_Error ''ECacheSet'' [S key, S (error_text e)] w1)))))"

subsection \<open>Fetch (lines 187-268)\<close>

text \<open>
  The local variables of \<open>Fetch\<close>. \<open>TilePacket.Validate\<close> is defined in another
  file of the package and is a parameter of the model. The three blocks of the function are three
  definitions; the first two either finish the call (\<open>Inl\<close>: a panic or a returned
  value) or hand the variables on (\<open>Inr\<close>).
\<close>

record fetch_vars =
  cachedTile :: "bytes option"
  err :: "error option"
  hit :: string

definition Fetch_internal ::
  "nat option \<Rightarrow> string \<Rightarrow> world \<Rightarrow> ((panic + TilePacket option) \<times> world) + (fetch_vars \<times> world)" where
  "Fetch_internal p key w =
     (case deref p w of
        None \<Rightarrow> Inl (Inl NilDereference, w)
      | Some c \<Rightarrow>
          if MemEnabled (Cache (Proxy c)) then
            (case internal c of
               None \<Rightarrow> Inl (Inl NilDereference, w)
             | Some bc \<Rightarrow>
                 (case bigcache_Get key bc of
                    ((tile, e), bc') \<Rightarrow>
                      let w1 = put p (c\<lparr>internal := Some bc'\<rparr>) w in
                      (case e of
                         Some e' \<Rightarrow>
                           if e' = ErrEntryNotFound then
                             Inr (\<lparr>cachedTile = tile, err = e, hit = '' :hit-i''\<rparr>,
                                  util_DebugFlag ''DCacheMiss'' [S key] w1)
                           else
                             Inl (Inr None,
                                  util_Error ''ECacheFetch'' [S key, S (error_text e')] w1)
                       | None \<Rightarrow>
                           Inr (\<lparr>cachedTile = tile, err = e, hit = '' :hit-i''\<rparr>, w1))))
          else Inr (\<lparr>cachedTile = None, err = None, hit = ''''\<rparr>, w))"

definition Fetch_external ::
  "nat option \<Rightarrow> string \<Rightarrow> fetch_vars \<Rightarrow> world \<Rightarrow>
     ((panic + TilePacket option) \<times> world) + (fetch_vars \<times> world)" where
  "Fetch_external p key v w =
     (case deref p w of
        None \<Rightarrow> Inl (Inl NilDereference, w)
      | Some c \<Rightarrow>
          if cachedTile v = None \<and> RedisEnabled (Cache (Proxy c)) then
            (case external c of
               None \<Rightarrow> Inl (Inl NilDereference, w)
             | Some rc \<Rightarrow>
                 (case redis_Get key rc of
                    (redisTile, rc') \<Rightarrow>
                      let w1 = put p (c\<lparr>external := Some rc'\<rparr>) w in
                      (case cmd_err redisTile of
                         Some re \<Rightarrow>
                           if re = RedisNil then
                             Inl (Inr None,
                                  util_DebugFlag ''DCacheMissExt'' [S key] (CacheMisses_Inc p w1))
                           else
                             \<comment> \<open>line 217 formats \<open>err\<close>, the local tier's error, not \<open>redisTile.Err()\<close>\<close>
                             (case err v of
                                None \<Rightarrow> Inl (Inl NilDereference, w1)
                              | Some e \<Rightarrow>
                                  Inl (Inr None,
                                       util_Error ''ECacheFetch'' [S key, S (error_text e)] w1))
                       | None \<Rightarrow>
                           (case StringCmd_Bytes redisTile of
                              (b, e2) \<Rightarrow>
                                (case e2 of
                                   Some e \<Rightarrow>
                                     Inl (Inr None,
                                          util_Error ''ECacheFetch'' [S key, S (error_text e)] w1)
                                 | None \<Rightarrow>
                                     Inr (\<lparr>cachedTile = b, err = e2, hit = '' :hit-e''\<rparr>,
                                          if RedisTTLDuration (Cache (Proxy c)) > 0
                                          then go (GoExpire p key (RedisTTLDuration (Cache (Proxy c)))) w1
                                          else w1))))))
          else Inr (v, w))"

definition Fetch_finish ::
  "(TilePacket \<Rightarrow> bool) \<Rightarrow> nat option \<Rightarrow> string \<Rightarrow> fetch_vars \<Rightarrow> world \<Rightarrow>
     (panic + TilePacket option) \<times> world" where
  "Fetch_finish Validate p key v w =
     (case cachedTile v of
        None \<Rightarrow>
          (Inr None, util_DebugFlag ''DCacheMissExt'' [S key] (CacheMisses_Inc p w))
      | Some tile \<Rightarrow>
          let w1 = CacheHits_Inc p (ctx_Locals ''lod-cache'' (hit v) w) in
          if length tile = 0 \<or> \<not> Validate tile then
            (case Invalidate p key (util_DebugFlag ''DCacheFail'' [S key] w1) of
               (Inl pn, w2) \<Rightarrow> (Inl pn, w2)
             | (Inr None, w2) \<Rightarrow> (Inr None, w2)
             | (Inr (Some e), w2) \<Rightarrow>
                 (Inr None, util_Error ''ECacheDelete'' [S key, S (error_text e)] w2))
          else
            (Inr (Some tile),
             go (GoSet p key tile [True])
                (util_DebugFlag ''DCacheHit'' [S key, N (length tile)] w1)))"

text \<open>Lines 192-235: the look-up in the local tier, then in the remote tier.\<close>

definition Fetch_lookup ::
  "nat option \<Rightarrow> string \<Rightarrow> world \<Rightarrow> ((panic + TilePacket option) \<times> world) + (fetch_vars \<times> world)" where
  "Fetch_lookup p key w =
     (case Fetch_internal p key w of
        Inl fin \<Rightarrow> Inl fin
      | Inr (v, w1) \<Rightarrow> Fetch_external p key v w1)"

definition Fetch ::
  "(TilePacket \<Rightarrow> bool) \<Rightarrow> nat option \<Rightarrow> string \<Rightarrow> world \<Rightarrow> (panic + TilePacket option) \<times> world" where
  "Fetch Validate p key w =
     (case Fetch_lookup p key w of
        Inl fin \<Rightarrow> fin
      | Inr (v, w2) \<Rightarrow> Fetch_finish Validate p key v w2)"

section \<open>The registry (lines 20-183)\<close>

text \<open>
  What construction reads from outside the file: the proxy configurations
  (\<open>config.Get().Proxies\<close>), the metrics namespace (\<open>config.Namespace\<close>),
  \<open>env.IsProd()\<close>, and the constructors of the two libraries, which may fail.
\<close>

record bigcache_Config =
  LifeWindow :: int
  StatsEnabled :: bool
  MaxEntrySize :: int
  HardMaxCacheSize :: int

record redis_Options =
  Addr :: string
  TLSMinVersion :: "nat option"

record env =
  Proxies :: "proxy list"
  Namespace :: string
  IsProd :: bool
  NewBigCache :: "bigcache_Config \<Rightarrow> error + bigcache"
  ParseURL :: "string \<Rightarrow> error + redis_Options"
  NewClient :: "redis_Options \<Rightarrow> redis_client"
  Ping :: "redis_Options \<Rightarrow> error option"

definition Subsystem :: string where
  "Subsystem = ''cache''"

definition OneMB :: int where
  "OneMB = 1024 * 1024"

text \<open>
  \<open>MemCap\<close> is a Go \<open>int\<close>, 64 bits wide: the product \<open>OneMB * proxy.Cache.MemCap\<close>
  wraps around in two's complement.
\<close>

definition int64_mul :: "int \<Rightarrow> int \<Rightarrow> int" where
  "int64_mul x y = sint ((word_of_int x :: 64 word) * word_of_int y)"

definition VersionTLS12 :: nat where
  "VersionTLS12 = 771"

definition initInternal :: "env \<Rightarrow> proxy \<Rightarrow> error + bigcache" where
  "initInternal ev prx =
     NewBigCache ev
       \<lparr>LifeWindow = MemTTLDuration (Cache prx),
        StatsEnabled = (\<not> IsProd ev),
        MaxEntrySize = 1024 * 10,
        HardMaxCacheSize = int64_mul OneMB (MemCap (Cache prx))\<rparr>"

definition initExternal ::
  "env \<Rightarrow> proxy \<Rightarrow> world \<Rightarrow> (redis_client option \<times> error option) \<times> world" where
  "initExternal ev prx w =
     (case ParseURL ev (RedisURL (Cache prx)) of
        Inl e \<Rightarrow> ((None, Some e), util_Error ''ECacheCreate'' [S (error_text e)] w)
      | Inr opts \<Rightarrow>
          let opts' = (if RedisTLS (Cache prx)
                       then opts\<lparr>TLSMinVersion := Some VersionTLS12\<rparr> else opts)
          in ((Some (NewClient ev opts'), Ping ev opts'), w))"

text \<open>
  \<open>promauto.NewCounter\<close> and \<open>promauto.NewCounterFunc\<close> register the new metric with
  the default registry and panic when a metric of the same name and constant labels
  is registered already. The function behind \<open>hit_rate\<close> divides two \<open>float64\<close>
  readings, \<open>hits / (hits + misses)\<close>; the model keeps the two counters as naturals
  and does not model the floating-point quotient.
\<close>

definition promauto_register :: "metric_id \<Rightarrow> world \<Rightarrow> panic + world" where
  "promauto_register m w =
     (if m \<in> set (registered w) then Inl (AlreadyRegistered m)
      else Inr (w\<lparr>registered := registered w @ [m]\<rparr>))"

definition initMetrics :: "env \<Rightarrow> proxy \<Rightarrow> world \<Rightarrow> (panic + metrics) \<times> world" where
  "initMetrics ev prx w =
     (case promauto_register (MetricId (Namespace ev) Subsystem ''hit_total'' (Name prx)) w of
        Inl pn \<Rightarrow> (Inl pn, w)
      | Inr w1 \<Rightarrow>
          (case promauto_register (MetricId (Namespace ev) Subsystem ''miss_total'' (Name prx)) w1 of
             Inl pn \<Rightarrow> (Inl pn, w1)
           | Inr w2 \<Rightarrow>
               (case promauto_register (MetricId (Namespace ev) Subsystem ''hit_rate'' (Name prx)) w2 of
                  Inl pn \<Rightarrow> (Inl pn, w2)
                | Inr w3 \<Rightarrow> (Inr \<lparr>CacheHits = 0, CacheMisses = 0\<rparr>, w3))))"

text \<open>The body of the loop of \<open>buildInstance\<close> for the proxy whose name matches (lines 71-103).\<close>

definition build_proxy :: "env \<Rightarrow> string \<Rightarrow> proxy \<Rightarrow> world \<Rightarrow> (panic + nat option) \<times> world" where
  "build_proxy ev name prx w =
     (case (if MemEnabled (Cache prx)
            then (case initInternal ev prx of Inl e \<Rightarrow> Inl e | Inr bc \<Rightarrow> Inr (Some bc))
            else Inr None) of
        Inl e \<Rightarrow> (Inr None, util_Error ''ECacheCreate'' [S (error_text e)] w)
      | Inr mem \<Rightarrow>
          (case (if RedisEnabled (Cache prx) then initExternal ev prx w else ((None, None), w)) of
             ((ext, e), w1) \<Rightarrow>
               (case e of
                  Some e' \<Rightarrow> (Inr None, util_Error ''ECacheCreate'' [S (error_text e')] w1)
                | None \<Rightarrow>
                    (case initMetrics ev prx w1 of
                       (Inl pn, w2) \<Rightarrow> (Inl pn, w2)
                     | (Inr ms, w2) \<Rightarrow>
                         let w3 = util_DebugFlag ''DCacheUp'' [S name] w2;
                             a = brk w3;
                             w4 = w3\<lparr>Caches := (Caches w3)(name \<mapsto> a),
                                     heap := (heap w3)(a \<mapsto>
                                       \<lparr>internal = mem, external = ext, Proxy = prx, Metrics = ms\<rparr>),
                                     brk := Suc a\<rparr>
                         in (Inr (Caches w4 name), w4)))))"

fun buildInstance_loop ::
  "env \<Rightarrow> string \<Rightarrow> proxy list \<Rightarrow> world \<Rightarrow> ((panic + nat option) \<times> world) option" where
  "buildInstance_loop ev name [] w = None"
| "buildInstance_loop ev name (prx # rest) w =
     (if Name prx = name then Some (build_proxy ev name prx w)
      else buildInstance_loop ev name rest w)"

text \<open>
  \<open>cacheLock\<close> is allocated on first use, taken, and released when the function
  returns: one call is one step of the model. The body does not look at \<open>Caches\<close>
  before it builds.
\<close>

definition buildInstance :: "env \<Rightarrow> string \<Rightarrow> world \<Rightarrow> (panic + nat option) \<times> world" where
  "buildInstance ev name w =
     (let w0 = (if \<not> cacheLock w then w\<lparr>cacheLock := True\<rparr> else w) in
      case buildInstance_loop ev name (Proxies ev) w0 of
        Some r \<Rightarrow> r
      | None \<Rightarrow> (Inr None, util_Error ''ECacheName'' [S name] w0))"

definition Get :: "env \<Rightarrow> string \<Rightarrow> world \<Rightarrow> (panic + nat option) \<times> world" where
  "Get ev name w =
     (if Caches w name = None then buildInstance ev name w
      else (Inr (Caches w name), w))"

subsection \<open>The handler's use of the registry (proxy handler, lines 413-415)\<close>

text \<open>
  \<open>cache.Get(p.Name).Fetch(cacheKey)\<close>: the result of \<open>Get\<close> is the receiver of \<open>Fetch\<close>,
  with no check between the two calls. The handler passes the key only; the request
  context that \<open>Fetch\<close> of cache.go takes as well is the \<open>ctx_locals\<close> of the world, so
  the call is the same in the model. The handler is built by \<open>wireProxy\<close> for the
  proxies of the configuration.
\<close>

definition handler_Fetch ::
  "env \<Rightarrow> (TilePacket \<Rightarrow> bool) \<Rightarrow> proxy \<Rightarrow> string \<Rightarrow> world \<Rightarrow> (panic + TilePacket option) \<times> world" where
  "handler_Fetch ev Validate prx cacheKey w =
     (case Get ev (Name prx) w of
        (Inl pn, w1) \<Rightarrow> (Inl pn, w1)
      | (Inr c, w1) \<Rightarrow> Fetch Validate c cacheKey w1)"

section \<open>Predicates used to state the properties\<close>

text \<open>A cache as \<open>buildInstance\<close> builds it: every enabled tier has its handle.\<close>

definition wf_cache :: "cache \<Rightarrow> bool" where
  "wf_cache c \<longleftrightarrow>
     (MemEnabled (Cache (Proxy c)) \<longrightarrow> internal c \<noteq> None) \<and>
     (RedisEnabled (Cache (Proxy c)) \<longrightarrow> external c \<noteq> None)"

text \<open>No call to a tier of the cache fails with an error of the tier's own.\<close>

definition no_faults :: "string option list \<Rightarrow> bool" where
  "no_faults fs = list_all (\<lambda>f. f = None) fs"

definition tiers_reliable :: "cache \<Rightarrow> bool" where
  "tiers_reliable c \<longleftrightarrow>
     (case internal c of None \<Rightarrow> True | Some bc \<Rightarrow> no_faults (mem_faults bc)) \<and>
     (case external c of None \<Rightarrow> True | Some rc \<Rightarrow> no_faults (redis_faults rc))"

text \<open>The key is stored in an enabled tier of the cache.\<close>

definition cached_in :: "string \<Rightarrow> cache \<Rightarrow> bool" where
  "cached_in key c \<longleftrightarrow>
     (MemEnabled (Cache (Proxy c)) \<and>
        (case internal c of None \<Rightarrow> False | Some bc \<Rightarrow> mem_entries bc key \<noteq> None)) \<or>
     (RedisEnabled (Cache (Proxy c)) \<and>
        (case external c of None \<Rightarrow> False | Some rc \<Rightarrow> redis_entries rc key \<noteq> None))"

text \<open>Construction of an enabled tier of the proxy fails.\<close>

definition tier_construction_fails :: "env \<Rightarrow> proxy \<Rightarrow> world \<Rightarrow> bool" where
  "tier_construction_fails ev prx w \<longleftrightarrow>
     (MemEnabled (Cache prx) \<and> isl (initInternal ev prx)) \<or>
     (RedisEnabled (Cache prx) \<and> snd (fst (initExternal ev prx w)) \<noteq> None)"

section \<open>Example configurations\<close>

text \<open>
  A proxy named \<open>osm\<close> with the two tiers switched on or off, a cache built for it at
  address 0, and a stand-in for \<open>Validate\<close> that accepts the blobs starting with the
  byte \<open>0x4C\<close>.
\<close>

definition example_config :: "bool \<Rightarrow> bool \<Rightarrow> cache_config" where
  "example_config m r =
     \<lparr>MemEnabled = m, MemTTLDuration = 60, MemCap = 64, RedisEnabled = r,
      RedisURL = ''redis://localhost:6379'', RedisTLS = False, RedisTTLDuration = 3600\<rparr>"

definition example_proxy :: "bool \<Rightarrow> bool \<Rightarrow> proxy" where
  "example_proxy m r = \<lparr>Name = ''osm'', Cache = example_config m r\<rparr>"

definition example_bigcache :: "(string \<times> bytes) list \<Rightarrow> string option list \<Rightarrow> bigcache" where
  "example_bigcache kvs fs = \<lparr>mem_entries = map_of kvs, mem_faults = fs\<rparr>"

definition example_redis :: "(string \<times> bytes) list \<Rightarrow> string option list \<Rightarrow> redis_client" where
  "example_redis kvs fs =
     \<lparr>redis_entries = map_of (map (\<lambda>(k, v). (k, (v, 3600))) kvs), redis_faults = fs\<rparr>"

definition example_cache :: "bool \<Rightarrow> bool \<Rightarrow> bigcache \<Rightarrow> redis_client \<Rightarrow> cache" where
  "example_cache m r bc rc =
     \<lparr>internal = (if m then Some bc else None),
      external = (if r then Some rc else None),
      Proxy = example_proxy m r,
      Metrics = \<lparr>CacheHits = 0, CacheMisses = 0\<rparr>\<rparr>"

definition example_world :: "cache \<Rightarrow> world" where
  "example_world c =
     \<lparr>Caches = [''osm'' \<mapsto> 0], heap = [0 \<mapsto> c], brk = 1, cacheLock = True,
      registered = [], goroutines = [], logs = [], ctx_locals = Map.empty\<rparr>"

definition example_Validate :: "TilePacket \<Rightarrow> bool" where
  "example_Validate t = (take 1 t = [76])"

definition example_key :: string where
  "example_key = ''z1/x2/y3''"



definition hit_world :: world where
  "hit_world =
     example_world (example_cache True True (example_bigcache [] [])
       (example_redis [(example_key, [76, 1, 2])] []))"

definition refused_world :: world where
  "refused_world =
     example_world (example_cache False True (example_bigcache [] [])
       (example_redis [] [Some ''connection refused'']))"

definition timeout_world :: "bool \<Rightarrow> world" where
  "timeout_world m =
     example_world (example_cache m True (example_bigcache [] [])
       (example_redis [(example_key, [76, 1, 2])] [Some ''i/o timeout'']))"

definition example_env :: "proxy list \<Rightarrow> error option \<Rightarrow> env" where
  "example_env ps pong =
     \<lparr>Proxies = ps, Namespace = ''lod'', IsProd = False,
      NewBigCache = (\<lambda>cf. Inr (example_bigcache [] [])),
      ParseURL = (\<lambda>u. Inr \<lparr>Addr = u, TLSMinVersion = None\<rparr>),
      NewClient = (\<lambda>opts. example_redis [] []),
      Ping = (\<lambda>opts. pong)\<rparr>"

definition empty_world :: world where
  "empty_world =
     \<lparr>Caches = Map.empty, heap = Map.empty, brk = 0, cacheLock = False,
      registered = [], goroutines = [], logs = [], ctx_locals = Map.empty\<rparr>"

section \<open>Basic facts\<close>

lemmas world_defs = deref_def put_def util_Error_def util_DebugFlag_def go_def ctx_Locals_def
  CacheMisses_Inc_def CacheHits_Inc_def

lemma no_faults_now: "no_faults fs \<Longrightarrow> fault_now fs = None"
  by (cases fs) (simp_all add: no_faults_def)

lemma no_faults_tl: "no_faults fs \<Longrightarrow> no_faults (tl fs)"
  by (cases fs) (simp_all add: no_faults_def)

lemmas example_defs = example_config_def example_proxy_def example_bigcache_def example_redis_def
  example_cache_def example_world_def example_Validate_def example_key_def

section \<open>Invalidate\<close>

text \<open>
  With reliable tiers \<open>Invalidate\<close> returns nil, changes nothing but the cache it was
  called on, and leaves the key in no enabled tier.
\<close>

lemma Invalidate_external_reliable:
  assumes "heap w a = Some c" "wf_cache c" "tiers_reliable c"
  shows "\<exists>c'. Invalidate_external (Some a) key w = (Inr None, w\<lparr>heap := (heap w)(a \<mapsto> c')\<rparr>)
           \<and> internal c' = internal c \<and> Proxy c' = Proxy c \<and> Metrics c' = Metrics c
           \<and> tiers_reliable c' \<and> wf_cache c'
           \<and> (RedisEnabled (Cache (Proxy c)) \<longrightarrow>
                 (\<exists>rc'. external c' = Some rc' \<and> redis_entries rc' key = None))"
proof (cases "RedisEnabled (Cache (Proxy c))")
  case False
  have "w\<lparr>heap := (heap w)(a \<mapsto> c)\<rparr> = w" using assms(1) by (simp add: fun_upd_idem)
  with False assms show ?thesis
    by (intro exI[of _ c]) (simp add: Invalidate_external_def world_defs)
next
  case True
  with assms(2) obtain rc where rc: "external c = Some rc" by (auto simp: wf_cache_def)
  with assms(3) have nf: "no_faults (redis_faults rc)" by (simp add: tiers_reliable_def)
  let ?rc = "rc\<lparr>redis_faults := tl (redis_faults rc), redis_entries := (redis_entries rc)(key := None)\<rparr>"
  show ?thesis
    using True rc assms no_faults_now[OF nf] no_faults_tl[OF nf]
    by (intro exI[of _ "c\<lparr>external := Some ?rc\<rparr>"])
       (simp add: Invalidate_external_def world_defs redis_Del_def tiers_reliable_def wf_cache_def)
qed


lemma Invalidate_reliable:
  assumes "heap w a = Some c" "wf_cache c" "tiers_reliable c"
  shows "\<exists>c'. Invalidate (Some a) key w = (Inr None, w\<lparr>heap := (heap w)(a \<mapsto> c')\<rparr>)
           \<and> Proxy c' = Proxy c \<and> Metrics c' = Metrics c
           \<and> tiers_reliable c' \<and> wf_cache c' \<and> \<not> cached_in key c'"
proof (cases "MemEnabled (Cache (Proxy c))")
  case False
  from Invalidate_external_reliable[OF assms, of key] obtain c' where
    c': "Invalidate_external (Some a) key w = (Inr None, w\<lparr>heap := (heap w)(a \<mapsto> c')\<rparr>)"
        "internal c' = internal c" "Proxy c' = Proxy c" "Metrics c' = Metrics c"
        "tiers_reliable c'" "wf_cache c'"
        "RedisEnabled (Cache (Proxy c)) \<longrightarrow> (\<exists>rc'. external c' = Some rc' \<and> redis_entries rc' key = None)"
    by blast
  have "Invalidate (Some a) key w = Invalidate_external (Some a) key w"
    using False assms(1) by (simp add: Invalidate_def deref_def)
  moreover have "\<not> cached_in key c'"
    using False c'(3,7) by (auto simp: cached_in_def)
  ultimately show ?thesis using c' by auto
next
  case True
  with assms(2) obtain bc where bc: "internal c = Some bc" by (auto simp: wf_cache_def)
  with assms(3) have nf: "no_faults (mem_faults bc)" by (simp add: tiers_reliable_def)
  obtain e bc' where del: "bigcache_Delete key bc = (e, bc')" by (cases "bigcache_Delete key bc")
  have e: "e = None \<or> e = Some ErrEntryNotFound"
    and gone: "mem_entries bc' key = None"
    and nf': "no_faults (mem_faults bc')"
    using del no_faults_now[OF nf] no_faults_tl[OF nf]
    by (auto simp: bigcache_Delete_def Let_def split: option.splits)
  let ?c1 = "c\<lparr>internal := Some bc'\<rparr>"
  let ?w1 = "w\<lparr>heap := (heap w)(a \<mapsto> ?c1)\<rparr>"
  have h1: "heap ?w1 a = Some ?c1" by simp
  have wf1: "wf_cache ?c1" using assms(2) by (simp add: wf_cache_def)
  have rel1: "tiers_reliable ?c1" using assms(3) nf' by (simp add: tiers_reliable_def)
  from Invalidate_external_reliable[OF h1 wf1 rel1, of key] obtain c' where
    c': "Invalidate_external (Some a) key ?w1 = (Inr None, ?w1\<lparr>heap := (heap ?w1)(a \<mapsto> c')\<rparr>)"
        "internal c' = internal ?c1" "Proxy c' = Proxy ?c1" "Metrics c' = Metrics ?c1"
        "tiers_reliable c'" "wf_cache c'"
        "RedisEnabled (Cache (Proxy ?c1)) \<longrightarrow> (\<exists>rc'. external c' = Some rc' \<and> redis_entries rc' key = None)"
    by blast
  have "Invalidate (Some a) key w = Invalidate_external (Some a) key ?w1"
    using True assms(1) bc del e by (auto simp: Invalidate_def deref_def put_def Let_def)
  moreover have "?w1\<lparr>heap := (heap ?w1)(a \<mapsto> c')\<rparr> = w\<lparr>heap := (heap w)(a \<mapsto> c')\<rparr>" by simp
  moreover have "\<not> cached_in key c'"
    using c'(2,3,7) gone by (auto simp: cached_in_def)
  ultimately show ?thesis using c' by auto
qed


text \<open>
  Claim C6. \<open>Invalidate\<close> is idempotent: when the tiers do not fail on their own, a
  second \<open>Invalidate\<close> of the same key, called right after the first one, returns nil.
  After the first call the key is in no enabled tier, so the local delete of the second
  call reports \<open>ErrEntryNotFound\<close>, which \<open>Invalidate\<close> treats as success.
\<close>

theorem Invalidate_idempotent:
  assumes "heap w a = Some c" and "wf_cache c" and "tiers_reliable c"
  shows "fst (Invalidate (Some a) key (snd (Invalidate (Some a) key w))) = Inr None
       \<and> (\<exists>c1. heap (snd (Invalidate (Some a) key w)) a = Some c1 \<and> \<not> cached_in key c1
            \<and> (\<forall>bc1. MemEnabled (Cache (Proxy c1)) \<and> internal c1 = Some bc1 \<longrightarrow>
                   fst (bigcache_Delete key bc1) = Some ErrEntryNotFound))"
proof -
  from Invalidate_reliable[OF assms, of key] obtain c1 where
    c1: "Invalidate (Some a) key w = (Inr None, w\<lparr>heap := (heap w)(a \<mapsto> c1)\<rparr>)"
        "tiers_reliable c1" "wf_cache c1" "\<not> cached_in key c1"
    by blast
  let ?w1 = "w\<lparr>heap := (heap w)(a \<mapsto> c1)\<rparr>"
  have h1: "heap ?w1 a = Some c1" by simp
  from Invalidate_reliable[OF h1 c1(3) c1(2), of key] obtain c2 where
    "Invalidate (Some a) key ?w1 = (Inr None, ?w1\<lparr>heap := (heap ?w1)(a \<mapsto> c2)\<rparr>)"
    by blast
  then have second: "fst (Invalidate (Some a) key (snd (Invalidate (Some a) key w))) = Inr None"
    using c1(1) by simp
  have notfound: "fst (bigcache_Delete key bc1) = Some ErrEntryNotFound"
    if "MemEnabled (Cache (Proxy c1)) \<and> internal c1 = Some bc1" for bc1
  proof -
    from that c1(2) have "no_faults (mem_faults bc1)" by (simp add: tiers_reliable_def)
    moreover from that c1(4) have "mem_entries bc1 key = None" by (simp add: cached_in_def)
    ultimately show ?thesis by (simp add: bigcache_Delete_def Let_def no_faults_now)
  qed
  show ?thesis using second c1(1,4) h1 notfound by auto
qed

theorem Invalidate_idempotent_witness:
  "wf_cache (example_cache True True (example_bigcache [(example_key, [1, 2])] [])
               (example_redis [(example_key, [1, 2])] []))
   \<and> tiers_reliable (example_cache True True (example_bigcache [(example_key, [1, 2])] [])
               (example_redis [(example_key, [1, 2])] []))
   \<and> fst (Invalidate (Some 0) example_key (snd (Invalidate (Some 0) example_key
        (example_world (example_cache True True (example_bigcache [(example_key, [1, 2])] [])
               (example_redis [(example_key, [1, 2])] [])))))) = Inr None"
proof -
  let ?c = "example_cache True True (example_bigcache [(example_key, [1, 2])] [])
               (example_redis [(example_key, [1, 2])] [])"
  have h: "heap (example_world ?c) 0 = Some ?c" by (simp add: example_world_def)
  have wf: "wf_cache ?c" by (simp add: wf_cache_def example_defs)
  have rel: "tiers_reliable ?c" by (simp add: tiers_reliable_def no_faults_def example_defs)
  from Invalidate_idempotent[OF h wf rel, of example_key] wf rel show ?thesis by simp
qed

section \<open>Both tiers disabled\<close>

text \<open>
  Claim C8. For a cache with both tiers disabled, every \<open>Fetch\<close> returns absent (it
  counts a miss and writes a debug line, nothing else), and every \<open>Set\<close> only writes
  its debug line: the heap, and so every tier, is unchanged and no goroutine is started.
\<close>

theorem both_tiers_disabled:
  assumes "heap w a = Some c"
    and "\<not> MemEnabled (Cache (Proxy c))" and "\<not> RedisEnabled (Cache (Proxy c))"
  shows "Fetch Validate (Some a) key w =
           (Inr None, util_DebugFlag ''DCacheMissExt'' [S key] (CacheMisses_Inc (Some a) w))
       \<and> Set (Some a) key tile internalOnly w =
           (Inr (), util_DebugFlag ''DCacheSet'' [S key, N (length tile)] w)
       \<and> heap (snd (Set (Some a) key tile internalOnly w)) = heap w
       \<and> goroutines (snd (Set (Some a) key tile internalOnly w)) = goroutines w"
  using assms
  by (simp add: Fetch_def Fetch_lookup_def Fetch_internal_def Fetch_external_def Fetch_finish_def Set_def
      world_defs)

theorem both_tiers_disabled_witness:
  "heap (example_world (example_cache False False (example_bigcache [] []) (example_redis [] []))) 0
     = Some (example_cache False False (example_bigcache [] []) (example_redis [] []))
   \<and> \<not> MemEnabled (Cache (Proxy (example_cache False False (example_bigcache [] []) (example_redis [] []))))
   \<and> \<not> RedisEnabled (Cache (Proxy (example_cache False False (example_bigcache [] []) (example_redis [] []))))
   \<and> fst (Fetch example_Validate (Some 0) example_key
        (example_world (example_cache False False (example_bigcache [] []) (example_redis [] [])))) = Inr None
   \<and> heap (snd (Set (Some 0) example_key [76, 1, 2] []
        (example_world (example_cache False False (example_bigcache [] []) (example_redis [] [])))))
      = heap (example_world (example_cache False False (example_bigcache [] []) (example_redis [] [])))"
  using both_tiers_disabled[of
      "example_world (example_cache False False (example_bigcache [] []) (example_redis [] []))" 0
      "example_cache False False (example_bigcache [] []) (example_redis [] [])"
      example_Validate example_key "[76, 1, 2]" "[]"]
  by (simp add: example_defs util_DebugFlag_def)

section \<open>Fetch\<close>

text \<open>
  The look-up keeps the cache well formed; it starts at most the goroutine that
  extends the remote entry's expiry.
\<close>

lemma Fetch_internal_cont:
  assumes "heap w a = Some c" "wf_cache c" "Fetch_internal (Some a) key w = Inr (v1, w1)"
  shows "\<exists>c1. heap w1 a = Some c1 \<and> wf_cache c1 \<and> Proxy c1 = Proxy c \<and> external c1 = external c
           \<and> Metrics c1 = Metrics c \<and> goroutines w1 = goroutines w"
  using assms
  by (auto simp: Fetch_internal_def wf_cache_def world_defs Let_def
      split: if_splits option.splits prod.splits)

lemma Fetch_external_cont:
  assumes "heap w a = Some c" "wf_cache c" "Fetch_external (Some a) key v w = Inr (v2, w2)"
  shows "\<exists>c2. heap w2 a = Some c2 \<and> wf_cache c2 \<and> Proxy c2 = Proxy c \<and> internal c2 = internal c
           \<and> Metrics c2 = Metrics c
           \<and> (goroutines w2 = goroutines w \<or>
              goroutines w2 = goroutines w @ [GoExpire (Some a) key (RedisTTLDuration (Cache (Proxy c)))])"
  using assms
  by (auto simp: Fetch_external_def wf_cache_def world_defs Let_def
      split: if_splits option.splits prod.splits)

lemma Fetch_lookup_cont:
  assumes "heap w a = Some c" "wf_cache c" "Fetch_lookup (Some a) key w = Inr (v2, w2)"
  shows "\<exists>c2. heap w2 a = Some c2 \<and> wf_cache c2 \<and> Proxy c2 = Proxy c \<and> Metrics c2 = Metrics c
           \<and> (goroutines w2 = goroutines w \<or>
              goroutines w2 = goroutines w @ [GoExpire (Some a) key (RedisTTLDuration (Cache (Proxy c)))])"
proof -
  from assms(3) obtain v1 w1 where
    s1: "Fetch_internal (Some a) key w = Inr (v1, w1)" and
    s2: "Fetch_external (Some a) key v1 w1 = Inr (v2, w2)"
    by (auto simp: Fetch_lookup_def split: sum.splits)
  from Fetch_internal_cont[OF assms(1,2) s1] obtain c1 where
    c1: "heap w1 a = Some c1" "wf_cache c1" "Proxy c1 = Proxy c" "Metrics c1 = Metrics c"
        "goroutines w1 = goroutines w"
    by blast
  from Fetch_external_cont[OF c1(1,2) s2] c1(3,4,5) show ?thesis by auto
qed




section \<open>Refresh on read\<close>

text \<open>
  Neither look-up block returns a packet by itself, and the only goroutine they start
  is the one that extends the remote entry's expiry.
\<close>

lemma Fetch_internal_goroutines:
  "Fetch_internal p key w = Inr (v1, w1) \<Longrightarrow> goroutines w1 = goroutines w"
  by (auto simp: Fetch_internal_def world_defs Let_def
      split: if_splits option.splits prod.splits)

lemma Fetch_external_goroutines:
  "Fetch_external p key v w = Inr (v2, w2) \<Longrightarrow>
     goroutines w2 = goroutines w \<or>
     (\<exists>ttl. goroutines w2 = goroutines w @ [GoExpire p key ttl])"
  by (auto simp: Fetch_external_def world_defs Let_def
      split: if_splits option.splits prod.splits)

lemma Fetch_internal_early:
  "Fetch_internal p key w = Inl (r, w') \<Longrightarrow> r = Inl NilDereference \<or> r = Inr None"
  by (auto simp: Fetch_internal_def Let_def split: if_splits option.splits prod.splits)

lemma Fetch_external_early:
  "Fetch_external p key v w = Inl (r, w') \<Longrightarrow> r = Inl NilDereference \<or> r = Inr None"
  by (auto simp: Fetch_external_def Let_def split: if_splits option.splits prod.splits)

lemma CacheHits_Inc_goroutines: "goroutines (CacheHits_Inc p w) = goroutines w"
  by (simp add: world_defs split: option.splits)

lemma Fetch_finish_hit:
  assumes "Fetch_finish Validate p key v w2 = (Inr (Some tile), w')"
  shows "goroutines w' = goroutines w2 @ [GoSet p key tile [True]] \<and> cachedTile v = Some tile
         \<and> Validate tile"
proof (cases "cachedTile v")
  case None
  with assms show ?thesis by (simp add: Fetch_finish_def)
next
  case (Some t)
  show ?thesis
  proof (cases "length t = 0 \<or> \<not> Validate t")
    case True
    with Some assms show ?thesis
      by (auto simp: Fetch_finish_def Let_def split: prod.splits sum.splits option.splits)
  next
    case False
    with Some assms show ?thesis
      by (auto simp: Fetch_finish_def Let_def CacheHits_Inc_goroutines util_DebugFlag_def go_def
          ctx_Locals_def)
  qed
qed

lemma Set_local_only:
  "goroutines (snd (Set p key tile [True] u)) = goroutines u \<and>
   map_option external (heap (snd (Set p key tile [True] u)) b) = map_option external (heap u b)"
  by (auto simp: Set_def world_defs Let_def split: option.splits prod.splits)

lemma Set_local_write:
  assumes "heap u a = Some cu" "MemEnabled (Cache (Proxy cu))" "internal cu = Some bc"
    "fault_now (mem_faults bc) = None"
  shows "\<exists>c' bc'. heap (snd (Set (Some a) key tile flags u)) a = Some c' \<and> internal c' = Some bc'
           \<and> mem_entries bc' key = Some tile"
  using assms
  by (auto simp: Set_def world_defs Let_def bigcache_Set_def split: option.splits prod.splits)

text \<open>
  Claim C4. On a valid hit \<open>Fetch\<close> starts, as its last goroutine, \<open>Set\<close> with the found
  bytes and the local-only flag; besides it only the expiry extension of the remote
  entry may have been started. Whenever that goroutine runs it starts no goroutine of
  its own (in particular no remote write) and leaves the remote tier of every cache as
  it was, even with the remote tier enabled; with the local tier enabled and not
  failing, the local tier then holds the found bytes under the key.
\<close>

theorem Fetch_hit_refreshes_local_only:
  assumes "Fetch Validate (Some a) key w = (Inr (Some tile), w')"
  shows "(\<exists>started. goroutines w' = goroutines w @ started @ [GoSet (Some a) key tile [True]]
            \<and> (\<forall>t \<in> set started. \<exists>ttl. t = GoExpire (Some a) key ttl))
       \<and> (\<forall>u b. goroutines (snd (run_task (GoSet (Some a) key tile [True]) u)) = goroutines u
            \<and> map_option external (heap (snd (run_task (GoSet (Some a) key tile [True]) u)) b)
                = map_option external (heap u b))
       \<and> (\<forall>u cu bc. heap u a = Some cu \<and> MemEnabled (Cache (Proxy cu)) \<and> internal cu = Some bc
              \<and> fault_now (mem_faults bc) = None \<longrightarrow>
            (\<exists>c' bc'. heap (snd (run_task (GoSet (Some a) key tile [True]) u)) a = Some c'
               \<and> internal c' = Some bc' \<and> mem_entries bc' key = Some tile))"
proof -
  from assms obtain v1 w1 v2 w2 where
    s1: "Fetch_internal (Some a) key w = Inr (v1, w1)" and
    s2: "Fetch_external (Some a) key v1 w1 = Inr (v2, w2)" and
    s3: "Fetch_finish Validate (Some a) key v2 w2 = (Inr (Some tile), w')"
    by (auto simp: Fetch_def Fetch_lookup_def split: sum.splits prod.splits
        dest: Fetch_internal_early Fetch_external_early)
  from Fetch_internal_goroutines[OF s1] Fetch_external_goroutines[OF s2]
  have "goroutines w2 = goroutines w @ [] \<or>
        (\<exists>ttl. goroutines w2 = goroutines w @ [GoExpire (Some a) key ttl])" by auto
  then obtain started where
    st: "goroutines w2 = goroutines w @ started"
        "\<forall>t \<in> set started. \<exists>ttl. t = GoExpire (Some a) key ttl"
    by fastforce
  from Fetch_finish_hit[OF s3] st(1)
  have g: "goroutines w' = goroutines w @ started @ [GoSet (Some a) key tile [True]]" by simp
  show ?thesis
    using g st(2) Set_local_only[of "Some a" key tile] Set_local_write[of _ a _ _ key tile "[True]"]
    by (simp only: run_task.simps) blast
qed

theorem Fetch_hit_refreshes_local_only_witness:
  "fst (Fetch example_Validate (Some 0) example_key hit_world) = Inr (Some [76, 1, 2])
   \<and> (\<exists>started. goroutines (snd (Fetch example_Validate (Some 0) example_key hit_world))
          = goroutines hit_world @ started @ [GoSet (Some 0) example_key [76, 1, 2] [True]])
   \<and> map_option external
        (heap (snd (run_task (GoSet (Some 0) example_key [76, 1, 2] [True])
                 (snd (Fetch example_Validate (Some 0) example_key hit_world)))) 0)
      = map_option external (heap (snd (Fetch example_Validate (Some 0) example_key hit_world)) 0)"
proof -
  have r: "fst (Fetch example_Validate (Some 0) example_key hit_world) = Inr (Some [76, 1, 2])"
    by (simp add: Fetch_def Fetch_lookup_def Fetch_internal_def Fetch_external_def
        Fetch_finish_def hit_world_def example_defs world_defs bigcache_Get_def redis_Get_def
        StringCmd_Bytes_def Let_def)
  then have "Fetch example_Validate (Some 0) example_key hit_world =
      (Inr (Some [76, 1, 2]), snd (Fetch example_Validate (Some 0) example_key hit_world))"
    by (simp add: prod_eq_iff)
  from Fetch_hit_refreshes_local_only[OF this] r show ?thesis by blast
qed

section \<open>Errors of the remote tier\<close>

text \<open>
  Claim C10. \<open>Fetch\<close> is not total: with the local tier disabled, the variable \<open>err\<close>
  is still nil when the remote tier answers with an error other than \<open>redis.Nil\<close>, and
  line 217 calls \<open>err.Error()\<close> on it. The call panics instead of returning absent.
\<close>

theorem Fetch_remote_error_panics:
  assumes "heap w a = Some c"
    and "\<not> MemEnabled (Cache (Proxy c))" and "RedisEnabled (Cache (Proxy c))"
    and "external c = Some rc" and "fault_now (redis_faults rc) = Some m"
  shows "fst (Fetch Validate (Some a) key w) = Inl NilDereference"
  using assms
  by (simp add: Fetch_def Fetch_lookup_def Fetch_internal_def Fetch_external_def redis_Get_def
      deref_def Let_def)

theorem Fetch_remote_error_panics_witness:
  "\<not> MemEnabled (Cache (Proxy (example_cache False True (example_bigcache [] [])
         (example_redis [] [Some ''connection refused'']))))
   \<and> RedisEnabled (Cache (Proxy (example_cache False True (example_bigcache [] [])
         (example_redis [] [Some ''connection refused'']))))
   \<and> fst (Fetch example_Validate (Some 0) example_key refused_world) = Inl NilDereference"
  using Fetch_remote_error_panics[of refused_world 0
      "example_cache False True (example_bigcache [] []) (example_redis [] [Some ''connection refused''])"
      "example_redis [] [Some ''connection refused'']" "''connection refused''"
      example_Validate example_key]
  by (simp add: refused_world_def example_defs)

section \<open>Metrics of a fetch without a hit\<close>

text \<open>
  An error of the local tier other than not-found: absent, metrics unchanged. Not-found
  in the remote tier: absent, one more miss. An error of the remote tier after a
  local not-found: absent, metrics unchanged. No bytes from any tier: absent, one more
  miss.
\<close>

lemma Fetch_local_error_no_metrics:
  assumes "heap w a = Some c" "MemEnabled (Cache (Proxy c))" "internal c = Some bc"
    "fault_now (mem_faults bc) = Some m"
  shows "fst (Fetch Validate (Some a) key w) = Inr None
       \<and> (\<exists>c'. heap (snd (Fetch Validate (Some a) key w)) a = Some c' \<and> Metrics c' = Metrics c)"
  using assms
  by (simp add: Fetch_def Fetch_lookup_def Fetch_internal_def bigcache_Get_def world_defs Let_def)

lemma Fetch_internal_miss_err:
  assumes "heap w a = Some c" "MemEnabled (Cache (Proxy c))"
    "Fetch_internal (Some a) key w = Inr (v1, w1)" "cachedTile v1 = None"
  shows "err v1 = Some ErrEntryNotFound"
  using assms
  by (auto simp: Fetch_internal_def bigcache_Get_def world_defs Let_def
      split: if_splits option.splits prod.splits)

lemma Fetch_remote_not_found_counts_miss:
  assumes "heap w a = Some c" "wf_cache c" "RedisEnabled (Cache (Proxy c))"
    "Fetch_internal (Some a) key w = Inr (v1, w1)" "cachedTile v1 = None"
    "external c = Some rc" "fault_now (redis_faults rc) = None" "redis_entries rc key = None"
  shows "fst (Fetch Validate (Some a) key w) = Inr None
       \<and> (\<exists>c'. heap (snd (Fetch Validate (Some a) key w)) a = Some c'
              \<and> Metrics c' = (Metrics c)\<lparr>CacheMisses := Suc (CacheMisses (Metrics c))\<rparr>)"
proof -
  from Fetch_internal_cont[OF assms(1,2,4)] obtain c1 where
    c1: "heap w1 a = Some c1" "Proxy c1 = Proxy c" "external c1 = external c" "Metrics c1 = Metrics c"
    by blast
  with assms show ?thesis
    by (simp add: Fetch_def Fetch_lookup_def Fetch_external_def redis_Get_def world_defs Let_def)
qed

lemma Fetch_remote_error_local_enabled:
  assumes "heap w a = Some c" "wf_cache c" "MemEnabled (Cache (Proxy c))"
    "RedisEnabled (Cache (Proxy c))"
    "Fetch_internal (Some a) key w = Inr (v1, w1)" "cachedTile v1 = None"
    "external c = Some rc" "fault_now (redis_faults rc) = Some m"
  shows "fst (Fetch Validate (Some a) key w) = Inr None
       \<and> (\<exists>c'. heap (snd (Fetch Validate (Some a) key w)) a = Some c' \<and> Metrics c' = Metrics c)"
proof -
  from Fetch_internal_cont[OF assms(1,2,5)] obtain c1 where
    c1: "heap w1 a = Some c1" "Proxy c1 = Proxy c" "external c1 = external c" "Metrics c1 = Metrics c"
    by blast
  from Fetch_internal_miss_err[OF assms(1,3,5,6)] have "err v1 = Some ErrEntryNotFound" .
  with c1 assms show ?thesis
    by (simp add: Fetch_def Fetch_lookup_def Fetch_external_def redis_Get_def world_defs Let_def)
qed

lemma Fetch_no_bytes_counts_miss:
  assumes "heap w a = Some c" "wf_cache c"
    "Fetch_lookup (Some a) key w = Inr (v, w2)" "cachedTile v = None"
  shows "fst (Fetch Validate (Some a) key w) = Inr None
       \<and> (\<exists>c'. heap (snd (Fetch Validate (Some a) key w)) a = Some c'
              \<and> Metrics c' = (Metrics c)\<lparr>CacheMisses := Suc (CacheMisses (Metrics c))\<rparr>)"
proof -
  from Fetch_lookup_cont[OF assms(1,2,3)] obtain c2 where
    "heap w2 a = Some c2" "Metrics c2 = Metrics c" by blast
  with assms show ?thesis
    by (simp add: Fetch_def Fetch_finish_def world_defs)
qed

text \<open>
  Claim C3. The metrics of a fetch are as the claim says in every case above, but "any
  other remote-tier error returns absent with no metrics change" holds only while the
  local tier is enabled: for the same key and the same failing remote tier, \<open>Fetch\<close>
  returns absent with the counters unchanged when the local tier is enabled, and
  panics at line 217 when it is disabled.
\<close>

theorem Fetch_remote_error_depends_on_local_tier:
  "fst (Fetch example_Validate (Some 0) example_key (timeout_world True)) = Inr None
   \<and> map_option Metrics (heap (snd (Fetch example_Validate (Some 0) example_key (timeout_world True))) 0)
       = map_option Metrics (heap (timeout_world True) 0)
   \<and> fst (Fetch example_Validate (Some 0) example_key (timeout_world False)) = Inl NilDereference"
  by (simp add: Fetch_def Fetch_lookup_def Fetch_internal_def Fetch_external_def
      timeout_world_def example_defs world_defs bigcache_Get_def redis_Get_def Let_def)

section \<open>The registry\<close>

text \<open>The size passed to bigcache is the wrapped product: 64 MB as expected, negative at \<open>2^43\<close>.\<close>

lemma int64_mul_example: "int64_mul OneMB 64 = 67108864"
  by (simp add: int64_mul_def OneMB_def)

lemma int64_mul_wraps: "int64_mul OneMB 8796093022208 = - 9223372036854775808"
  by (simp add: int64_mul_def OneMB_def)

lemma buildInstance_loop_find:
  "buildInstance_loop ev name ps w =
     map_option (\<lambda>prx. build_proxy ev name prx w) (find (\<lambda>prx. Name prx = name) ps)"
  by (induction ps) simp_all

lemma initExternal_result: "fst (initExternal ev prx w) = fst (initExternal ev prx w')"
  by (simp add: initExternal_def Let_def split: sum.splits)

lemma initExternal_frame:
  "Caches (snd (initExternal ev prx w)) = Caches w \<and> heap (snd (initExternal ev prx w)) = heap w
   \<and> registered (snd (initExternal ev prx w)) = registered w
   \<and> cacheLock (snd (initExternal ev prx w)) = cacheLock w
   \<and> brk (snd (initExternal ev prx w)) = brk w"
  by (simp add: initExternal_def Let_def util_Error_def split: sum.splits)

lemma tier_construction_fails_indep:
  "tier_construction_fails ev prx w = tier_construction_fails ev prx w'"
  using initExternal_result[of ev prx w w'] by (simp add: tier_construction_fails_def)

lemma build_proxy_fails:
  assumes "tier_construction_fails ev prx w"
  shows "fst (build_proxy ev name prx w) = Inr None
       \<and> Caches (snd (build_proxy ev name prx w)) = Caches w
       \<and> heap (snd (build_proxy ev name prx w)) = heap w
       \<and> registered (snd (build_proxy ev name prx w)) = registered w"
proof -
  obtain ext e w1 where ie: "initExternal ev prx w = ((ext, e), w1)"
    by (metis surj_pair)
  with initExternal_frame[of ev prx w]
  have fr: "Caches w1 = Caches w" "heap w1 = heap w" "registered w1 = registered w" by simp_all
  show ?thesis
    using assms ie fr
    by (auto simp: build_proxy_def tier_construction_fails_def util_Error_def
        split: sum.splits option.splits)
qed

lemma initMetrics_ok:
  assumes "initMetrics ev prx w = (Inr ms, w')"
  shows "MetricId (Namespace ev) Subsystem ''hit_total'' (Name prx) \<in> set (registered w')
       \<and> Caches w' = Caches w \<and> heap w' = heap w \<and> brk w' = brk w \<and> cacheLock w' = cacheLock w
       \<and> ms = \<lparr>CacheHits = 0, CacheMisses = 0\<rparr>"
  using assms
  by (auto simp: initMetrics_def promauto_register_def split: if_splits sum.splits)

lemma initMetrics_again:
  assumes "MetricId (Namespace ev) Subsystem ''hit_total'' (Name prx) \<in> set (registered w)"
  shows "initMetrics ev prx w =
           (Inl (AlreadyRegistered (MetricId (Namespace ev) Subsystem ''hit_total'' (Name prx))), w)"
  using assms by (simp add: initMetrics_def promauto_register_def)

lemma build_proxy_ok:
  assumes "build_proxy ev name prx w = (Inr (Some a), w')"
  shows "\<not> tier_construction_fails ev prx w
       \<and> MetricId (Namespace ev) Subsystem ''hit_total'' (Name prx) \<in> set (registered w')
       \<and> Caches w' name = Some a \<and> cacheLock w' = cacheLock w
       \<and> (\<exists>c. heap w' a = Some c \<and> wf_cache c \<and> Proxy c = prx)"
proof -
  obtain ext e w1 where ie: "initExternal ev prx w = ((ext, e), w1)"
    by (metis surj_pair)
  with initExternal_frame[of ev prx w]
  have fr: "cacheLock w1 = cacheLock w" by simp
  have ext: "ext \<noteq> None" if "e = None"
    using ie that by (auto simp: initExternal_def Let_def split: sum.splits)
  show ?thesis
    using assms ie fr ext
    by (auto simp: build_proxy_def tier_construction_fails_def util_Error_def util_DebugFlag_def
        wf_cache_def Let_def
        split: sum.splits option.splits if_splits prod.splits dest!: initMetrics_ok)
qed

lemma build_proxy_again:
  assumes "\<not> tier_construction_fails ev prx w"
    and "MetricId (Namespace ev) Subsystem ''hit_total'' (Name prx) \<in> set (registered w)"
  shows "fst (build_proxy ev name prx w) =
           Inl (AlreadyRegistered (MetricId (Namespace ev) Subsystem ''hit_total'' (Name prx)))"
proof -
  obtain ext e w1 where ie: "initExternal ev prx w = ((ext, e), w1)"
    by (metis surj_pair)
  with initExternal_frame[of ev prx w]
  have fr: "registered w1 = registered w" by simp
  show ?thesis
    using assms ie fr initMetrics_again[of ev prx w1] initMetrics_again[of ev prx w]
    by (auto simp: build_proxy_def tier_construction_fails_def split: sum.splits option.splits)
qed

text \<open>
  Claim C7. Construction is all or nothing: when \<open>Get\<close> has to build the instance of a
  configured proxy and the construction of an enabled tier fails, \<open>Get\<close> returns nil,
  stores nothing (the registry map and the heap are unchanged) and registers no
  metrics; and whenever \<open>Get\<close> returns an instance, that instance has every tier its
  configuration enables.
\<close>

theorem tier_failure_aborts_construction:
  assumes "Caches w name = None"
    and "find (\<lambda>prx. Name prx = name) (Proxies ev) = Some prx"
  shows "(tier_construction_fails ev prx w \<longrightarrow>
            fst (Get ev name w) = Inr None
          \<and> Caches (snd (Get ev name w)) = Caches w
          \<and> heap (snd (Get ev name w)) = heap w
          \<and> registered (snd (Get ev name w)) = registered w)
       \<and> (\<forall>a. fst (Get ev name w) = Inr (Some a) \<longrightarrow>
            (\<exists>c. heap (snd (Get ev name w)) a = Some c \<and> wf_cache c \<and> Proxy c = prx))"
proof -
  let ?w0 = "if \<not> cacheLock w then w\<lparr>cacheLock := True\<rparr> else w"
  have get: "Get ev name w = build_proxy ev name prx ?w0"
    using assms by (simp add: Get_def buildInstance_def buildInstance_loop_find)
  have fr: "Caches ?w0 = Caches w" "heap ?w0 = heap w" "registered ?w0 = registered w"
    by simp_all
  have fails: "fst (Get ev name w) = Inr None
          \<and> Caches (snd (Get ev name w)) = Caches w
          \<and> heap (snd (Get ev name w)) = heap w
          \<and> registered (snd (Get ev name w)) = registered w"
    if "tier_construction_fails ev prx w"
  proof -
    from that have "tier_construction_fails ev prx ?w0"
      using tier_construction_fails_indep by blast
    from build_proxy_fails[OF this, of name] get fr show ?thesis by simp
  qed
  have built: "\<exists>c. heap (snd (Get ev name w)) a = Some c \<and> wf_cache c \<and> Proxy c = prx"
    if "fst (Get ev name w) = Inr (Some a)" for a
  proof -
    from that get have "build_proxy ev name prx ?w0 = (Inr (Some a), snd (Get ev name w))"
      by (simp add: prod_eq_iff)
    from build_proxy_ok[OF this] show ?thesis by blast
  qed
  show ?thesis using fails built by blast
qed

theorem tier_failure_aborts_construction_witness:
  "tier_construction_fails
       (example_env [example_proxy True True] (Some (TierError ''connection refused'')))
       (example_proxy True True) empty_world
   \<and> fst (Get (example_env [example_proxy True True] (Some (TierError ''connection refused'')))
            ''osm'' empty_world) = Inr None
   \<and> heap (snd (Get (example_env [example_proxy True True] (Some (TierError ''connection refused'')))
            ''osm'' empty_world)) = heap empty_world
   \<and> registered (snd (Get (example_env [example_proxy True True] (Some (TierError ''connection refused'')))
            ''osm'' empty_world)) = []"
proof -
  let ?ev = "example_env [example_proxy True True] (Some (TierError ''connection refused''))"
  have c: "Caches empty_world ''osm'' = None" by (simp add: empty_world_def)
  have f: "find (\<lambda>prx. Name prx = ''osm'') (Proxies ?ev) = Some (example_proxy True True)"
    by (simp add: example_env_def example_proxy_def)
  have t: "tier_construction_fails ?ev (example_proxy True True) empty_world"
    by (simp add: tier_construction_fails_def initExternal_def example_env_def example_proxy_def
        example_config_def Let_def)
  from tier_failure_aborts_construction[OF c f] t show ?thesis
    by (simp add: empty_world_def)
qed

text \<open>A name whose instance is stored gets that instance, and nothing happens.\<close>

lemma Get_existing: "Caches w name = Some a \<Longrightarrow> Get ev name w = (Inr (Some a), w)"
  by (simp add: Get_def)

text \<open>
  Claim C2. \<open>buildInstance\<close> does not look at \<open>Caches\<close> again after it has taken the
  lock. When two callers of \<open>Get\<close> both saw no instance for the name, both enter
  \<open>buildInstance\<close>, one after the other: if the first one built the instance, the
  second one still finds it stored, constructs the tiers again and registers the same
  metrics again, which panics.
\<close>

theorem second_construction_registers_again:
  assumes "fst (buildInstance ev name w) = Inr (Some a)"
  shows "Caches (snd (buildInstance ev name w)) name = Some a
       \<and> fst (buildInstance ev name (snd (buildInstance ev name w))) =
           Inl (AlreadyRegistered (MetricId (Namespace ev) Subsystem ''hit_total'' name))"
proof -
  let ?w0 = "if \<not> cacheLock w then w\<lparr>cacheLock := True\<rparr> else w"
  let ?w1 = "snd (buildInstance ev name w)"
  from assms obtain prx where
    f: "find (\<lambda>prx. Name prx = name) (Proxies ev) = Some prx"
    by (cases "find (\<lambda>prx. Name prx = name) (Proxies ev)")
       (auto simp: buildInstance_def buildInstance_loop_find Let_def)
  then have nm: "Name prx = name" by (auto simp: find_Some_iff)
  have b1: "buildInstance ev name w = build_proxy ev name prx ?w0"
    using f by (simp add: buildInstance_def buildInstance_loop_find)
  with assms have "build_proxy ev name prx ?w0 = (Inr (Some a), ?w1)"
    by (simp add: prod_eq_iff)
  from build_proxy_ok[OF this] have
    ok: "\<not> tier_construction_fails ev prx ?w0"
        "MetricId (Namespace ev) Subsystem ''hit_total'' (Name prx) \<in> set (registered ?w1)"
        "Caches ?w1 name = Some a" "cacheLock ?w1 = cacheLock ?w0"
    by blast+
  have locked: "cacheLock ?w1" using ok(4) by simp
  then have b2: "buildInstance ev name ?w1 = build_proxy ev name prx ?w1"
    using f by (simp add: buildInstance_def buildInstance_loop_find)
  from ok(1) have "\<not> tier_construction_fails ev prx ?w1"
    using tier_construction_fails_indep by blast
  from build_proxy_again[OF this ok(2), of name] b2 nm ok(3) show ?thesis by simp
qed

theorem second_construction_registers_again_witness:
  "fst (buildInstance (example_env [example_proxy True True] None) ''osm'' empty_world) = Inr (Some 0)
   \<and> fst (buildInstance (example_env [example_proxy True True] None) ''osm''
            (snd (buildInstance (example_env [example_proxy True True] None) ''osm'' empty_world)))
       = Inl (AlreadyRegistered (MetricId ''lod'' ''cache'' ''hit_total'' ''osm''))"
proof -
  let ?ev = "example_env [example_proxy True True] None"
  have b: "fst (buildInstance ?ev ''osm'' empty_world) = Inr (Some 0)"
    by (simp add: buildInstance_def build_proxy_def initInternal_def initExternal_def
        initMetrics_def promauto_register_def Subsystem_def util_DebugFlag_def Let_def
        empty_world_def example_env_def example_proxy_def example_config_def)
  from second_construction_registers_again[OF b] b show ?thesis
    by (simp add: example_env_def Subsystem_def)
qed

section \<open>A nil cache in the handler\<close>

lemma Fetch_nil: "Fetch Validate None key w = (Inl NilDereference, w)"
  by (simp add: Fetch_def Fetch_lookup_def Fetch_internal_def deref_def)

text \<open>
  A name that has no stored instance and matches no proxy configuration: \<open>Get\<close> logs
  the error and returns nil; nothing is stored and no metrics are registered.
\<close>

lemma Get_unknown_name:
  assumes "Caches w name = None"
    and "\<forall>prx \<in> set (Proxies ev). Name prx \<noteq> name"
  shows "Get ev name w =
           (Inr None, util_Error ''ECacheName'' [S name]
                        (if \<not> cacheLock w then w\<lparr>cacheLock := True\<rparr> else w))"
proof -
  from assms(2) have "find (\<lambda>prx. Name prx = name) (Proxies ev) = None"
    by (simp add: find_None_iff)
  with assms(1) show ?thesis
    by (simp add: Get_def buildInstance_def buildInstance_loop_find)
qed

text \<open>A configured proxy whose tier construction fails: \<open>Get\<close> returns nil as well.\<close>

lemma Get_tier_failure:
  assumes "Caches w name = None"
    and "find (\<lambda>prx. Name prx = name) (Proxies ev) = Some prx"
    and "tier_construction_fails ev prx w"
  shows "fst (Get ev name w) = Inr None"
proof -
  let ?w0 = "if \<not> cacheLock w then w\<lparr>cacheLock := True\<rparr> else w"
  have get: "Get ev name w = build_proxy ev name prx ?w0"
    using assms(1,2) by (simp add: Get_def buildInstance_def buildInstance_loop_find)
  from assms(3) have "tier_construction_fails ev prx ?w0"
    using tier_construction_fails_indep by blast
  from build_proxy_fails[OF this, of name] get show ?thesis by simp
qed

text \<open>
  Claim C5. \<open>Get\<close> logs and returns nil, but the handler does not treat the nil as
  caching disabled: for a configured proxy whose tier construction fails, \<open>Get\<close> returns
  nil on every request, line 415 calls \<open>Fetch\<close> on it, and the first field access of
  \<open>Fetch\<close> (line 193) panics with a nil dereference.
\<close>

theorem handler_Fetch_panics_on_nil_cache:
  assumes "Caches w (Name prx) = None"
    and "find (\<lambda>q. Name q = Name prx) (Proxies ev) = Some prx"
    and "tier_construction_fails ev prx w"
  shows "fst (Get ev (Name prx) w) = Inr None
       \<and> fst (handler_Fetch ev Validate prx cacheKey w) = Inl NilDereference"
proof -
  from Get_tier_failure[OF assms] have g: "fst (Get ev (Name prx) w) = Inr None" .
  then obtain w1 where "Get ev (Name prx) w = (Inr None, w1)"
    by (cases "Get ev (Name prx) w") simp
  then have "handler_Fetch ev Validate prx cacheKey w = Fetch Validate None cacheKey w1"
    by (simp add: handler_Fetch_def)
  with g show ?thesis by (simp add: Fetch_nil)
qed

theorem handler_Fetch_panics_on_nil_cache_witness:
  "find (\<lambda>q. Name q = Name (example_proxy True True))
       (Proxies (example_env [example_proxy True True] (Some (TierError ''connection refused''))))
     = Some (example_proxy True True)
   \<and> tier_construction_fails
       (example_env [example_proxy True True] (Some (TierError ''connection refused'')))
       (example_proxy True True) empty_world
   \<and> fst (Get (example_env [example_proxy True True] (Some (TierError ''connection refused'')))
            ''osm'' empty_world) = Inr None
   \<and> fst (handler_Fetch
            (example_env [example_proxy True True] (Some (TierError ''connection refused'')))
            example_Validate (example_proxy True True) example_key empty_world)
       = Inl NilDereference"
proof -
  let ?ev = "example_env [example_proxy True True] (Some (TierError ''connection refused''))"
  have c: "Caches empty_world (Name (example_proxy True True)) = None"
    by (simp add: empty_world_def)
  have f: "find (\<lambda>q. Name q = Name (example_proxy True True)) (Proxies ?ev)
             = Some (example_proxy True True)"
    by (simp add: example_env_def)
  have t: "tier_construction_fails ?ev (example_proxy True True) empty_world"
    by (simp add: tier_construction_fails_def initExternal_def example_env_def example_proxy_def
        example_config_def Let_def)
  have n: "Name (example_proxy True True) = ''osm''" by (simp add: example_proxy_def)
  from handler_Fetch_panics_on_nil_cache[OF c f t, of example_Validate example_key] f t n
  show ?thesis by simp
qed

end
